theory Spec2Isabelle
  imports Main "HOL-Library.AList" "HOL-Library.Sublist"
begin

section \<open>Python values\<close>

text \<open>
  The client exchanges JSON with the service; \<open>response.json()\<close> and the keyword
  arguments of the operations are ordinary Python values. \<open>PyNone\<close> is both the decoding
  of JSON \<open>null\<close> and the "no result" value the operations return on failure. A
  dictionary is an association list in insertion order (a Python \<open>dict\<close> has distinct
  keys; lookups take the first binding). JSON numbers with a fraction (Python floats) are
  not part of this datatype; characters are bytes, so text is taken as ASCII where a
  length or a \<open>repr\<close> escape is concerned.
\<close>

datatype pyval =
    PyNone
  | PyBool bool
  | PyInt int
  | PyStr string
  | PyList "pyval list"
  | PyDict "(string \<times> pyval) list"

text \<open>Truth value testing (\<open>if x:\<close>, \<open>not x\<close>, \<open>a and b\<close>).\<close>

fun truthy :: "pyval \<Rightarrow> bool" where
  "truthy PyNone = False"
| "truthy (PyBool b) = b"
| "truthy (PyInt i) = (i \<noteq> 0)"
| "truthy (PyStr s) = (s \<noteq> [])"
| "truthy (PyList xs) = (xs \<noteq> [])"
| "truthy (PyDict kvs) = (kvs \<noteq> [])"

subsection \<open>\<open>str()\<close> and \<open>repr()\<close>, as f-strings apply them\<close>

definition digit_char :: "nat \<Rightarrow> char" where
  "digit_char n = ''0123456789abcdef'' ! n"

function str_nat :: "nat \<Rightarrow> string" where
  "str_nat n = (if n < 10 then [digit_char n] else str_nat (n div 10) @ [digit_char (n mod 10)])"
  by pat_completeness auto
termination
  by (relation "measure id") auto

declare str_nat.simps [simp del]

definition str_int :: "int \<Rightarrow> string" where
  "str_int i = (if i < 0 then CHR ''-'' # str_nat (nat (- i)) else str_nat (nat i))"

definition backslash :: char where
  "backslash = CHR 0x5C"

definition squote :: char where
  "squote = CHR 0x27"

definition dquote :: char where
  "dquote = CHR 0x22"

text \<open>
  One character of \<open>repr\<close> of a string inside the quote \<open>q\<close>: the quote and the backslash
  are escaped, tab, newline and carriage return have their letters, other control
  characters are \<open>\xNN\<close>; everything else stands for itself.
\<close>

definition repr_char :: "char \<Rightarrow> char \<Rightarrow> string" where
  "repr_char q c =
     (if c = q \<or> c = backslash then [backslash, c]
      else if c = CHR 0x09 then [backslash, CHR ''t'']
      else if c = CHR 0x0A then [backslash, CHR ''n'']
      else if c = CHR 0x0D then [backslash, CHR ''r'']
      else if (of_char c :: nat) < 32 \<or> c = CHR 0x7F
        then [backslash, CHR ''x'', digit_char (of_char c div 16), digit_char (of_char c mod 16)]
      else [c])"

definition repr_str :: "string \<Rightarrow> string" where
  "repr_str s =
     (let q = (if squote \<in> set s \<and> dquote \<notin> set s then dquote else squote)
      in q # concat (map (repr_char q) s) @ [q])"

fun join :: "string \<Rightarrow> string list \<Rightarrow> string" where
  "join sep [] = []"
| "join sep [x] = x"
| "join sep (x # y # ys) = x @ sep @ join sep (y # ys)"

fun py_repr :: "pyval \<Rightarrow> string" where
  "py_repr PyNone = ''None''"
| "py_repr (PyBool b) = (if b then ''True'' else ''False'')"
| "py_repr (PyInt i) = str_int i"
| "py_repr (PyStr s) = repr_str s"
| "py_repr (PyList xs) = ''['' @ join '', '' (map py_repr xs) @ '']''"
| "py_repr (PyDict kvs) =
     ''{'' @ join '', '' (map (\<lambda>kv. repr_str (fst kv) @ '': '' @ py_repr (snd kv)) kvs) @ ''}''"

fun py_str :: "pyval \<Rightarrow> string" where
  "py_str (PyStr s) = s"
| "py_str v = py_repr v"

subsection \<open>Operations on decoded values\<close>

text \<open>
  The exceptions that can travel through the script. \<open>RequestException\<close> stands for
  every instance of \<open>requests.RequestException\<close> and its subclasses (connection errors,
  timeouts, \<open>HTTPError\<close>, \<open>JSONDecodeError\<close>, ...): the handlers of the client catch
  exactly this class.
\<close>

record response =
  status_code :: int
  reason :: string
  resp_url :: string
  resp_text :: string
  decoded :: "string + pyval"

record req_exc =
  exc_message :: string
  exc_response :: "response option"

datatype exn =
    RequestException req_exc
  | AttributeError
  | KeyError
  | TypeError
  | IndexError
  | SystemExit int


text \<open>\<open>v.get(key, default)\<close>: only a dictionary has the method.\<close>

fun dict_get :: "pyval \<Rightarrow> string \<Rightarrow> pyval \<Rightarrow> exn + pyval" where
  "dict_get (PyDict kvs) k d = (case map_of kvs k of Some v \<Rightarrow> Inr v | None \<Rightarrow> Inr d)"
| "dict_get v k d = Inl AttributeError"





section \<open>The \<open>requests\<close> library, as the client uses it\<close>

datatype http_method = GET | POST | PUT | DELETE

record request =
  verb :: http_method
  url :: string
  params :: "(string \<times> pyval) list"
  json :: "pyval option"
  headers :: "(string \<times> string) list"

text \<open>
  One call of \<open>session.get/post/put/delete\<close> either raises a \<open>RequestException\<close>
  (no connection, timeout, too many redirects, ...) or returns a response. The network
  and the service are a state transformer \<open>send\<close> over a world \<open>'w\<close> that the client
  cannot inspect.
\<close>

datatype exchange = Raised req_exc | Responded response

type_synonym 'w transport = "request \<Rightarrow> 'w \<Rightarrow> exchange \<times> 'w"

text \<open>
  The state of a run: the world behind the session, what was printed, and the requests
  handed to the session so far.
\<close>

record 'w sys =
  net :: 'w
  stdout :: "string list"
  issued :: "request list"

type_synonym ('w, 'a) py = "'w sys \<Rightarrow> (exn + 'a) \<times> 'w sys"

definition ret :: "'a \<Rightarrow> ('w, 'a) py" where
  "ret a s = (Inr a, s)"

definition py_raise :: "exn \<Rightarrow> ('w, 'a) py" where
  "py_raise e s = (Inl e, s)"

definition lift :: "exn + 'a \<Rightarrow> ('w, 'a) py" where
  "lift r s = (r, s)"

definition bnd :: "('w, 'a) py \<Rightarrow> ('a \<Rightarrow> ('w, 'b) py) \<Rightarrow> ('w, 'b) py" where
  "bnd m k s = (case m s of (Inl e, s') \<Rightarrow> (Inl e, s') | (Inr a, s') \<Rightarrow> k a s')"

definition py_print :: "string \<Rightarrow> ('w, unit) py" where
  "py_print l s = (Inr (), s\<lparr>stdout := stdout s @ [l]\<rparr>)"

text \<open>\<open>try: body  except requests.RequestException as e: handler\<close>.\<close>

definition try_except :: "('w, 'a) py \<Rightarrow> (req_exc \<Rightarrow> ('w, 'a) py) \<Rightarrow> ('w, 'a) py" where
  "try_except body handler s =
     (case body s of
        (Inl (RequestException e), s') \<Rightarrow> handler e s'
      | other \<Rightarrow> other)"

text \<open>
  \<open>Response.raise_for_status()\<close>: an \<open>HTTPError\<close> carrying the response for a status
  from 400 to 599, nothing for any other status.
\<close>

definition raise_for_status :: "response \<Rightarrow> exn + unit" where
  "raise_for_status r =
     (if 400 \<le> status_code r \<and> status_code r < 500 then
        Inl (RequestException \<lparr>exc_message =
               str_int (status_code r) @ '' Client Error: '' @ reason r @ '' for url: '' @ resp_url r,
             exc_response = Some r\<rparr>)
      else if 500 \<le> status_code r \<and> status_code r < 600 then
        Inl (RequestException \<lparr>exc_message =
               str_int (status_code r) @ '' Server Error: '' @ reason r @ '' for url: '' @ resp_url r,
             exc_response = Some r\<rparr>)
      else Inr ())"

text \<open>
  \<open>Response.json()\<close>: the decoded body, or \<open>requests.JSONDecodeError\<close> (a
  \<open>RequestException\<close> since requests 2.27, constructed without a response).
\<close>

definition response_json :: "response \<Rightarrow> exn + pyval" where
  "response_json r =
     (case decoded r of
        Inl msg \<Rightarrow> Inl (RequestException \<lparr>exc_message = msg, exc_response = None\<rparr>)
      | Inr v \<Rightarrow> Inr v)"

text \<open>
  \<open>Response.ok\<close>, which is also the truth value of a response object
  (\<open>Response.__bool__\<close>): whether \<open>raise_for_status\<close> passes.
\<close>

definition response_ok :: "response \<Rightarrow> bool" where
  "response_ok r = (case raise_for_status r of Inl e \<Rightarrow> False | Inr u \<Rightarrow> True)"

text \<open>\<open>hasattr(e, 'response') and e.response\<close>, as a condition.\<close>

definition has_response :: "req_exc \<Rightarrow> bool" where
  "has_response e = (case exc_response e of None \<Rightarrow> False | Some r \<Rightarrow> response_ok r)"

definition response_text :: "req_exc \<Rightarrow> string" where
  "response_text e = (case exc_response e of None \<Rightarrow> [] | Some r \<Rightarrow> resp_text r)"

section \<open>SecurePasteClient\<close>

record client =
  base_url :: string
  api_base :: string
  session_headers :: "(string \<times> string) list"

definition rstrip_slash :: "string \<Rightarrow> string" where
  "rstrip_slash s = rev (dropWhile (\<lambda>c. c = CHR ''/'') (rev s))"

definition SecurePasteClient :: "string \<Rightarrow> client" where
  "SecurePasteClient b =
     \<lparr>base_url = rstrip_slash b,
      api_base = rstrip_slash b @ ''/api/pastes'',
      session_headers = [(''Content-Type'', ''application/json''),
                         (''User-Agent'', ''SecurePaste-Python-Client/1.0'')]\<rparr>"

definition session_request ::
  "'w transport \<Rightarrow> client \<Rightarrow> http_method \<Rightarrow> string \<Rightarrow> (string \<times> pyval) list \<Rightarrow> pyval option
   \<Rightarrow> ('w, response) py" where
  "session_request send c m u ps j s =
     (let rq = \<lparr>verb = m, url = u, params = ps, json = j, headers = session_headers c\<rparr>;
          xw = send rq (net s);
          s' = s\<lparr>net := snd xw, issued := issued s @ [rq]\<rparr>
      in case fst xw of
           Raised e \<Rightarrow> (Inl (RequestException e), s')
         | Responded r \<Rightarrow> (Inr r, s'))"

text \<open>\<open>{'title': title, 'content': content, **kwargs}\<close>: later keys replace earlier ones in place.\<close>

definition dict_display :: "(string \<times> pyval) list \<Rightarrow> (string \<times> pyval) list \<Rightarrow> (string \<times> pyval) list" where
  "dict_display items kwargs = foldl (\<lambda>d kv. AList.update (fst kv) (snd kv) d) [] (items @ kwargs)"

definition create_paste ::
  "'w transport \<Rightarrow> client \<Rightarrow> pyval \<Rightarrow> pyval \<Rightarrow> (string \<times> pyval) list \<Rightarrow> ('w, pyval) py" where
  "create_paste send c title content kwargs =
     (let data = dict_display [(''title'', title), (''content'', content)] kwargs in
      try_except
        (bnd (session_request send c POST (api_base c) [] (Some (PyDict data))) (\<lambda>response.
         bnd (lift (raise_for_status response)) (\<lambda>u.
         lift (response_json response))))
        (\<lambda>e.
         bnd (py_print (''Error creating paste: '' @ exc_message e)) (\<lambda>u.
         bnd (if has_response e then py_print (''Response: '' @ response_text e) else ret ()) (\<lambda>u.
         ret PyNone))))"

definition get_paste :: "'w transport \<Rightarrow> client \<Rightarrow> pyval \<Rightarrow> pyval \<Rightarrow> ('w, pyval) py" where
  "get_paste send c paste_id password =
     (let ps = (if truthy password then [(''password'', password)] else []) in
      try_except
        (bnd (session_request send c GET (api_base c @ ''/'' @ py_str paste_id) ps None) (\<lambda>response.
         bnd (lift (raise_for_status response)) (\<lambda>u.
         lift (response_json response))))
        (\<lambda>e.
         bnd (py_print (''Error retrieving paste '' @ py_str paste_id @ '': '' @ exc_message e)) (\<lambda>u.
         bnd (if has_response e then py_print (''Response: '' @ response_text e) else ret ()) (\<lambda>u.
         ret PyNone))))"

definition update_paste ::
  "'w transport \<Rightarrow> client \<Rightarrow> pyval \<Rightarrow> (string \<times> pyval) list \<Rightarrow> ('w, pyval) py" where
  "update_paste send c paste_id kwargs =
     try_except
       (bnd (session_request send c PUT (api_base c @ ''/'' @ py_str paste_id) [] (Some (PyDict kwargs)))
          (\<lambda>response.
        bnd (lift (raise_for_status response)) (\<lambda>u.
        lift (response_json response))))
       (\<lambda>e.
        bnd (py_print (''Error updating paste '' @ py_str paste_id @ '': '' @ exc_message e)) (\<lambda>u.
        bnd (if has_response e then py_print (''Response: '' @ response_text e) else ret ()) (\<lambda>u.
        ret PyNone)))"

definition delete_paste :: "'w transport \<Rightarrow> client \<Rightarrow> pyval \<Rightarrow> ('w, bool) py" where
  "delete_paste send c paste_id =
     try_except
       (bnd (session_request send c DELETE (api_base c @ ''/'' @ py_str paste_id) [] None) (\<lambda>response.
        bnd (lift (raise_for_status response)) (\<lambda>u.
        ret True)))
       (\<lambda>e.
        bnd (py_print (''Error deleting paste '' @ py_str paste_id @ '': '' @ exc_message e)) (\<lambda>u.
        ret False))"





definition health_check :: "'w transport \<Rightarrow> client \<Rightarrow> ('w, bool) py" where
  "health_check send c =
     try_except
       (bnd (session_request send c GET (api_base c @ ''/health'') [] None) (\<lambda>response.
        bnd (lift (raise_for_status response)) (\<lambda>u.
        bnd (lift (response_json response)) (\<lambda>body.
        bnd (lift (dict_get body ''status'' PyNone)) (\<lambda>status.
        ret (status = PyStr ''UP''))))))
       (\<lambda>e. ret False)"

subsection \<open>Calling \<open>create_paste\<close>\<close>



section \<open>The driver\<close>




















text \<open>
  A transport that replays a fixed list of exchanges, one per request, whatever the
  request; when the list is used up the connection is refused. Every run of the client
  against a real service sees some such list.
\<close>

definition replay :: "exchange list transport" where
  "replay rq xs =
     (case xs of
        [] \<Rightarrow> (Raised \<lparr>exc_message = ''Connection refused'', exc_response = None\<rparr>, [])
      | x # rest \<Rightarrow> (x, rest))"

definition start :: "'w \<Rightarrow> 'w sys" where
  "start w = \<lparr>net = w, stdout = [], issued = []\<rparr>"

section \<open>Vocabulary of the statements\<close>

text \<open>
  The exception a response makes \<open>raise_for_status\<close> raise, if any, and the state right
  after the session has carried a request.
\<close>

definition status_error :: "response \<Rightarrow> req_exc option" where
  "status_error r = (case raise_for_status r of Inl (RequestException e) \<Rightarrow> Some e | _ \<Rightarrow> None)"

definition after_request :: "'w transport \<Rightarrow> request \<Rightarrow> 'w sys \<Rightarrow> 'w sys" where
  "after_request send rq s = s\<lparr>net := snd (send rq (net s)), issued := issued s @ [rq]\<rparr>"

text \<open>
  The exchange that answered the request an operation issued: \<open>s\<close> is the state the
  operation started in, \<open>out\<close> what it returned.
\<close>

definition exchange_of :: "'w transport \<Rightarrow> 'w sys \<Rightarrow> (exn + 'a) \<times> 'w sys \<Rightarrow> exchange" where
  "exchange_of send s out = fst (send (last (issued (snd out))) (net s))"

text \<open>
  The failures of an exchange: the transport raised, or the status is one that
  \<open>raise_for_status\<close> rejects; for an operation that decodes the body, also a body that
  is not JSON.
\<close>

definition refused :: "exchange \<Rightarrow> bool" where
  "refused x =
     (case x of Raised e \<Rightarrow> True | Responded r \<Rightarrow> 400 \<le> status_code r \<and> status_code r < 600)"



text \<open>
  The exception that the handler of an operation receives for a failing exchange, and
  its text (\<open>str(e)\<close>).
\<close>

definition caught :: "exchange \<Rightarrow> req_exc" where
  "caught x =
     (case x of
        Raised e \<Rightarrow> e
      | Responded r \<Rightarrow>
          (case status_error r of
             Some e \<Rightarrow> e
           | None \<Rightarrow>
              (case decoded r of
                 Inl msg \<Rightarrow> \<lparr>exc_message = msg, exc_response = None\<rparr>
               | Inr v \<Rightarrow> \<lparr>exc_message = [], exc_response = None\<rparr>)))"



text \<open>
  The shapes of the data model that the driver reads from a decoded body: a paste
  record has \<open>id\<close>, \<open>title\<close>, \<open>visibility\<close>, \<open>viewCount\<close> and \<open>createdAt\<close> and a
  text as \<open>content\<close>; a page result has a list of paste records as \<open>content\<close> and
  \<open>totalElements\<close>; a statistics record is an object whose \<open>popularLanguages\<close>, when
  present, is a list of (name, count) pairs; the health answer is an object.
\<close>

definition has_keys :: "(string \<times> pyval) list \<Rightarrow> string list \<Rightarrow> bool" where
  "has_keys kvs ks = list_all (\<lambda>k. map_of kvs k \<noteq> None) ks"

fun paste_record :: "pyval \<Rightarrow> bool" where
  "paste_record (PyDict kvs) =
     (has_keys kvs [''id'', ''title'', ''visibility'', ''viewCount'', ''createdAt''] \<and>
      (case map_of kvs ''content'' of Some (PyStr s) \<Rightarrow> True | _ \<Rightarrow> False))"
| "paste_record v = False"













text \<open>Sample data for the concrete runs below.\<close>

definition local_client :: client where
  "local_client = SecurePasteClient ''http://localhost:8080''"

definition sample_response :: "int \<Rightarrow> string \<Rightarrow> string \<Rightarrow> string + pyval \<Rightarrow> response" where
  "sample_response code phrase body dec =
     \<lparr>status_code = code, reason = phrase, resp_url = ''http://localhost:8080/api/pastes/abc'',
      resp_text = body, decoded = dec\<rparr>"

text \<open>The body \<open>{"id": "abc"}\<close> and its decoding.\<close>

definition sample_body :: string where
  "sample_body = ''{'' @ [dquote] @ ''id'' @ [dquote] @ '': '' @ [dquote] @ ''abc'' @ [dquote] @ ''}''"

definition sample_paste :: pyval where
  "sample_paste = PyDict [(''id'', PyStr ''abc'')]"

text \<open>The body \<open>{"status": "UP"}\<close> and its decoding.\<close>

definition health_body :: string where
  "health_body =
     ''{'' @ [dquote] @ ''status'' @ [dquote] @ '': '' @ [dquote] @ ''UP'' @ [dquote] @ ''}''"

definition health_up :: pyval where
  "health_up = PyDict [(''status'', PyStr ''UP'')]"








section \<open>The try blocks\<close>

lemmas monad_defs =
  ret_def py_raise_def lift_def bnd_def py_print_def try_except_def session_request_def

lemmas sample_defs =
  local_client_def SecurePasteClient_def rstrip_slash_def replay_def start_def sample_response_def
  sample_body_def sample_paste_def health_body_def health_up_def

lemma raise_for_status_eq:
  "raise_for_status r =
     (case status_error r of Some e \<Rightarrow> Inl (RequestException e) | None \<Rightarrow> Inr ())"
  by (simp add: status_error_def raise_for_status_def)

lemma status_error_None: "(status_error r = None) = (status_code r < 400 \<or> 600 \<le> status_code r)"
  by (auto simp: status_error_def raise_for_status_def)

lemma status_error_Some: "status_error r = Some e \<Longrightarrow> exc_response e = Some r"
  by (auto simp: status_error_def raise_for_status_def split: if_splits)


text \<open>
  What the try block shared by the JSON-returning operations does with each kind of
  exchange, for any handler \<open>h\<close>.
\<close>

lemma fetch_json_run:
  "try_except
     (bnd (session_request send c m u ps j) (\<lambda>response.
      bnd (lift (raise_for_status response)) (\<lambda>u.
      lift (response_json response)))) h s =
   (let rq = \<lparr>verb = m, url = u, params = ps, json = j, headers = session_headers c\<rparr>;
        s1 = after_request send rq s
    in case fst (send rq (net s)) of
         Raised e \<Rightarrow> h e s1
       | Responded r \<Rightarrow>
           (case status_error r of
              Some e \<Rightarrow> h e s1
            | None \<Rightarrow>
               (case decoded r of
                  Inl msg \<Rightarrow> h \<lparr>exc_message = msg, exc_response = None\<rparr> s1
                | Inr v \<Rightarrow> (Inr v, s1))))"
  by (simp add: monad_defs after_request_def raise_for_status_eq response_json_def Let_def
      split: exchange.splits option.splits sum.splits)

lemma fetch_status_run:
  "try_except
     (bnd (session_request send c m u ps j) (\<lambda>response.
      bnd (lift (raise_for_status response)) (\<lambda>u.
      ret True))) h s =
   (let rq = \<lparr>verb = m, url = u, params = ps, json = j, headers = session_headers c\<rparr>;
        s1 = after_request send rq s
    in case fst (send rq (net s)) of
         Raised e \<Rightarrow> h e s1
       | Responded r \<Rightarrow> (case status_error r of Some e \<Rightarrow> h e s1 | None \<Rightarrow> (Inr True, s1)))"
  by (simp add: monad_defs after_request_def raise_for_status_eq Let_def
      split: exchange.splits option.splits sum.splits)

text \<open>The handlers print and return.\<close>

lemma report_with_body:
  "bnd (py_print l) (\<lambda>u. bnd (if b then py_print l' else ret ()) (\<lambda>u. ret v)) s =
     (Inr v, s\<lparr>stdout := stdout s @ l # (if b then [l'] else [])\<rparr>)"
  by (simp add: monad_defs)

lemma report_only:
  "bnd (py_print l) (\<lambda>u. ret v) s = (Inr v, s\<lparr>stdout := stdout s @ [l]\<rparr>)"
  by (simp add: monad_defs)

lemmas run_simps =
  fetch_json_run fetch_status_run report_with_body report_only after_request_def Let_def

section \<open>Each operation, exchange by exchange\<close>

lemma create_paste_run:
  "create_paste send c title content kwargs s =
   (let rq = \<lparr>verb = POST, url = api_base c, params = [],
               json = Some (PyDict (dict_display [(''title'', title), (''content'', content)] kwargs)),
               headers = session_headers c\<rparr>;
        s1 = after_request send rq s;
        report = (\<lambda>e. (Inr PyNone, s1\<lparr>stdout := stdout s1 @
                   (''Error creating paste: '' @ exc_message e) #
                   (if has_response e then [''Response: '' @ response_text e] else [])\<rparr>))
    in case fst (send rq (net s)) of
         Raised e \<Rightarrow> report e
       | Responded r \<Rightarrow>
           (case status_error r of
              Some e \<Rightarrow> report e
            | None \<Rightarrow>
               (case decoded r of
                  Inl msg \<Rightarrow> report \<lparr>exc_message = msg, exc_response = None\<rparr>
                | Inr v \<Rightarrow> (Inr v, s1))))"
  by (simp add: create_paste_def run_simps split: exchange.split option.split sum.split)

lemma get_paste_run:
  "get_paste send c paste_id password s =
   (let rq = \<lparr>verb = GET, url = api_base c @ ''/'' @ py_str paste_id,
               params = (if truthy password then [(''password'', password)] else []),
               json = None, headers = session_headers c\<rparr>;
        s1 = after_request send rq s;
        report = (\<lambda>e. (Inr PyNone, s1\<lparr>stdout := stdout s1 @
                   (''Error retrieving paste '' @ py_str paste_id @ '': '' @ exc_message e) #
                   (if has_response e then [''Response: '' @ response_text e] else [])\<rparr>))
    in case fst (send rq (net s)) of
         Raised e \<Rightarrow> report e
       | Responded r \<Rightarrow>
           (case status_error r of
              Some e \<Rightarrow> report e
            | None \<Rightarrow>
               (case decoded r of
                  Inl msg \<Rightarrow> report \<lparr>exc_message = msg, exc_response = None\<rparr>
                | Inr v \<Rightarrow> (Inr v, s1))))"
  by (simp add: get_paste_def run_simps split: exchange.split option.split sum.split)

lemma update_paste_run:
  "update_paste send c paste_id kwargs s =
   (let rq = \<lparr>verb = PUT, url = api_base c @ ''/'' @ py_str paste_id, params = [],
               json = Some (PyDict kwargs), headers = session_headers c\<rparr>;
        s1 = after_request send rq s;
        report = (\<lambda>e. (Inr PyNone, s1\<lparr>stdout := stdout s1 @
                   (''Error updating paste '' @ py_str paste_id @ '': '' @ exc_message e) #
                   (if has_response e then [''Response: '' @ response_text e] else [])\<rparr>))
    in case fst (send rq (net s)) of
         Raised e \<Rightarrow> report e
       | Responded r \<Rightarrow>
           (case status_error r of
              Some e \<Rightarrow> report e
            | None \<Rightarrow>
               (case decoded r of
                  Inl msg \<Rightarrow> report \<lparr>exc_message = msg, exc_response = None\<rparr>
                | Inr v \<Rightarrow> (Inr v, s1))))"
  by (simp add: update_paste_def run_simps split: exchange.split option.split sum.split)

lemma delete_paste_run:
  "delete_paste send c paste_id s =
   (let rq = \<lparr>verb = DELETE, url = api_base c @ ''/'' @ py_str paste_id, params = [], json = None,
               headers = session_headers c\<rparr>;
        s1 = after_request send rq s;
        report = (\<lambda>e. (Inr False, s1\<lparr>stdout := stdout s1 @
                   [''Error deleting paste '' @ py_str paste_id @ '': '' @ exc_message e]\<rparr>))
    in case fst (send rq (net s)) of
         Raised e \<Rightarrow> report e
       | Responded r \<Rightarrow> (case status_error r of Some e \<Rightarrow> report e | None \<Rightarrow> (Inr True, s1)))"
  by (simp add: delete_paste_def run_simps split: exchange.split option.split)





lemma dict_get_cases:
  "dict_get body k d = Inl AttributeError \<or> (\<exists>v. dict_get body k d = Inr v)"
  by (cases body) (auto split: option.splits)

lemma health_check_run:
  "health_check send c s =
   (let rq = \<lparr>verb = GET, url = api_base c @ ''/health'', params = [], json = None,
               headers = session_headers c\<rparr>;
        s1 = after_request send rq s
    in case fst (send rq (net s)) of
         Raised e \<Rightarrow> (Inr False, s1)
       | Responded r \<Rightarrow>
           (case status_error r of
              Some e \<Rightarrow> (Inr False, s1)
            | None \<Rightarrow>
               (case decoded r of
                  Inl msg \<Rightarrow> (Inr False, s1)
                | Inr body \<Rightarrow>
                   (case dict_get body ''status'' PyNone of
                      Inl e \<Rightarrow> (Inl e, s1)
                    | Inr status \<Rightarrow> (Inr (status = PyStr ''UP''), s1)))))"
  apply (simp add: health_check_def monad_defs after_request_def raise_for_status_eq response_json_def
      Let_def split: exchange.split option.split sum.split)
  apply (intro allI impI conjI)
  subgoal for r body
    using dict_get_cases [of body "''status''" PyNone] by auto
  done

section \<open>Requests and results of the operations\<close>

text \<open>
  Claim C8, as the code has it. \<open>delete_paste\<close> hands the session one request,
  \<open>DELETE {api_base}/{paste_id}\<close> with no parameters and no body, and returns a boolean:
  \<open>True\<close> exactly when a response arrives whose status \<open>raise_for_status\<close> lets pass
  (below 400, or 600 and above), \<open>False\<close> otherwise. The body is never read: two
  responses of the same status give the same result.
\<close>

theorem delete_paste_status:
  "rq = \<lparr>verb = DELETE, url = api_base c @ ''/'' @ py_str paste_id, params = [], json = None,
          headers = session_headers c\<rparr> \<Longrightarrow>
   issued (snd (delete_paste send c paste_id s)) = issued s @ [rq] \<and>
   fst (delete_paste send c paste_id s) =
     Inr (case fst (send rq (net s)) of
            Raised e \<Rightarrow> False
          | Responded r \<Rightarrow> status_code r < 400 \<or> 600 \<le> status_code r) \<and>
   (\<forall>r r'. fst (send rq (net s)) = Responded r \<and> fst (send' rq (net s)) = Responded r' \<and>
      status_code r' = status_code r \<longrightarrow>
      fst (delete_paste send' c paste_id s) = fst (delete_paste send c paste_id s))"
proof -
  assume rq: "rq = \<lparr>verb = DELETE, url = api_base c @ ''/'' @ py_str paste_id, params = [],
                    json = None, headers = session_headers c\<rparr>"
  have res: "fst (delete_paste t c paste_id s) =
     Inr (case fst (t rq (net s)) of
            Raised e \<Rightarrow> False
          | Responded r \<Rightarrow> status_code r < 400 \<or> 600 \<le> status_code r)" for t :: "'a transport"
    by (simp add: delete_paste_run rq Let_def status_error_None [symmetric]
        split: exchange.splits option.splits)
  have iss: "issued (snd (delete_paste send c paste_id s)) = issued s @ [rq]"
    by (simp add: delete_paste_run rq Let_def after_request_def split: exchange.splits option.splits)
  show ?thesis
    using iss by (simp add: res)
qed

text \<open>A run of \<open>delete_paste\<close> answered by \<open>204 No Content\<close> with an empty body.\<close>

theorem delete_paste_status_witness:
  "issued (snd (delete_paste replay local_client (PyStr ''abc'')
      (start [Responded (sample_response 204 ''No Content'' [] (Inl ''Expecting value''))]))) =
     [\<lparr>verb = DELETE, url = ''http://localhost:8080/api/pastes/abc'', params = [], json = None,
       headers = [(''Content-Type'', ''application/json''),
                  (''User-Agent'', ''SecurePaste-Python-Client/1.0'')]\<rparr>] \<and>
   fst (delete_paste replay local_client (PyStr ''abc'')
      (start [Responded (sample_response 204 ''No Content'' [] (Inl ''Expecting value''))])) = Inr True \<and>
   fst (delete_paste
          (\<lambda>rq w. (Responded (sample_response 204 ''No Content'' ''{}'' (Inr (PyDict []))), w))
          local_client (PyStr ''abc'')
          (start [Responded (sample_response 204 ''No Content'' [] (Inl ''Expecting value''))])) =
     fst (delete_paste replay local_client (PyStr ''abc'')
          (start [Responded (sample_response 204 ''No Content'' [] (Inl ''Expecting value''))]))"
  using delete_paste_status [of _ local_client "PyStr ''abc''" replay
      "start [Responded (sample_response 204 ''No Content'' [] (Inl ''Expecting value''))]"
      "\<lambda>rq w. (Responded (sample_response 204 ''No Content'' ''{}'' (Inr (PyDict []))), w)",
      OF refl]
  by (simp add: sample_defs delete_paste_def monad_defs raise_for_status_def)

text \<open>
  Claim C8 as stated (\<open>True\<close> exactly when the status is 2xx) fails: a final response
  with status 300, a redirect status that \<open>requests\<close> does not follow, is not 2xx, and
  \<open>delete_paste\<close> returns \<open>True\<close>.
\<close>

theorem delete_paste_2xx_counterexample:
  "fst (delete_paste replay local_client (PyStr ''abc'')
      (start [Responded (sample_response 300 ''Multiple Choices'' [] (Inl ''Expecting value''))])) \<noteq>
   Inr (200 \<le> status_code (sample_response 300 ''Multiple Choices'' [] (Inl ''Expecting value'')) \<and>
        status_code (sample_response 300 ''Multiple Choices'' [] (Inl ''Expecting value'')) < 300)"
  by (simp add: sample_defs delete_paste_def monad_defs raise_for_status_def)

text \<open>
  Claim C10. \<open>get_paste\<close> with the empty string as password runs exactly as
  \<open>get_paste\<close> with no password; whenever the password is empty or absent the request
  carries no parameters; and no request of \<open>get_paste\<close> carries an empty \<open>password\<close>
  parameter.
\<close>

theorem get_paste_empty_password:
  "get_paste send c paste_id (PyStr []) s = get_paste send c paste_id PyNone s \<and>
   (password = PyNone \<or> password = PyStr [] \<longrightarrow>
      params (last (issued (snd (get_paste send c paste_id password s)))) = []) \<and>
   (''password'', PyStr []) \<notin> set (params (last (issued (snd (get_paste send c paste_id password s)))))"
proof -
  have same: "get_paste send c paste_id (PyStr []) s = get_paste send c paste_id PyNone s"
    by (simp add: get_paste_def)
  have sent: "params (last (issued (snd (get_paste send c paste_id password s)))) =
      (if truthy password then [(''password'', password)] else [])"
    by (simp add: get_paste_run Let_def after_request_def split: exchange.split option.split sum.split)
  show ?thesis
    using same by (auto simp: sent)
qed

text \<open>The same at the paste \<open>abc\<close>, the connection refused.\<close>

theorem get_paste_empty_password_witness:
  "get_paste replay local_client (PyStr ''abc'') (PyStr []) (start []) =
     get_paste replay local_client (PyStr ''abc'') PyNone (start []) \<and>
   params (last (issued (snd (get_paste replay local_client (PyStr ''abc'') (PyStr []) (start []))))) = [] \<and>
   (''password'', PyStr []) \<notin>
     set (params (last (issued (snd (get_paste replay local_client (PyStr ''abc'') (PyStr []) (start []))))))"
  using get_paste_empty_password [of replay local_client "PyStr ''abc''" "start []" "PyStr []"]
  by blast

text \<open>
  Claim C5, as the code has it. \<open>get_paste\<close> hands the session one request,
  \<open>GET {api_base}/{paste_id}\<close>, with the parameter \<open>password\<close> exactly when the password
  given is truthy (for a string: not empty). A 2xx response whose body decodes makes it
  return the decoded value; a transport error, a status from 400 to 599 or a body that
  does not decode makes it return \<open>None\<close>.
\<close>

theorem get_paste_request:
  "rq = \<lparr>verb = GET, url = api_base c @ ''/'' @ py_str paste_id,
          params = (if truthy password then [(''password'', password)] else []),
          json = None, headers = session_headers c\<rparr> \<Longrightarrow>
   issued (snd (get_paste send c paste_id password s)) = issued s @ [rq] \<and>
   (\<forall>r v. fst (send rq (net s)) = Responded r \<and> 200 \<le> status_code r \<and> status_code r < 300 \<and>
      decoded r = Inr v \<longrightarrow> fst (get_paste send c paste_id password s) = Inr v) \<and>
   (\<forall>e. fst (send rq (net s)) = Raised e \<longrightarrow> fst (get_paste send c paste_id password s) = Inr PyNone) \<and>
   (\<forall>r. fst (send rq (net s)) = Responded r \<and>
      (400 \<le> status_code r \<and> status_code r < 600 \<or> isl (decoded r)) \<longrightarrow>
      fst (get_paste send c paste_id password s) = Inr PyNone)"
proof -
  assume rq: "rq = \<lparr>verb = GET, url = api_base c @ ''/'' @ py_str paste_id,
          params = (if truthy password then [(''password'', password)] else []),
          json = None, headers = session_headers c\<rparr>"
  have iss: "issued (snd (get_paste send c paste_id password s)) = issued s @ [rq]"
    by (simp add: get_paste_run rq Let_def after_request_def split: exchange.split option.split sum.split)
  have ok: "fst (get_paste send c paste_id password s) = Inr v"
    if "fst (send rq (net s)) = Responded r" "200 \<le> status_code r" "status_code r < 300"
       "decoded r = Inr v" for r v
  proof -
    have "status_error r = None" using that by (simp add: status_error_None)
    then show ?thesis using that by (simp add: get_paste_run rq Let_def split del: if_split)
  qed
  have raised: "fst (get_paste send c paste_id password s) = Inr PyNone"
    if "fst (send rq (net s)) = Raised e" for e
    using that by (simp add: get_paste_run rq Let_def split del: if_split)
  have bad: "fst (get_paste send c paste_id password s) = Inr PyNone"
    if "fst (send rq (net s)) = Responded r"
       "400 \<le> status_code r \<and> status_code r < 600 \<or> isl (decoded r)" for r
  proof (cases "status_error r")
    case None
    then have "isl (decoded r)" using that by (auto simp: status_error_None)
    then show ?thesis using that None
      by (cases "decoded r") (simp_all add: get_paste_run rq Let_def split del: if_split)
  next
    case (Some e)
    then show ?thesis using that by (simp add: get_paste_run rq Let_def split del: if_split)
  qed
  show ?thesis
    using iss ok raised bad by blast
qed


text \<open>A run of \<open>get_paste\<close> with a password, answered by \<open>200 OK\<close>.\<close>

theorem get_paste_request_witness:
  "issued (snd (get_paste replay local_client (PyStr ''abc'') (PyStr ''secret123'')
      (start [Responded (sample_response 200 ''OK'' sample_body
                (Inr sample_paste))]))) =
     [\<lparr>verb = GET, url = ''http://localhost:8080/api/pastes/abc'',
       params = [(''password'', PyStr ''secret123'')], json = None,
       headers = [(''Content-Type'', ''application/json''),
                  (''User-Agent'', ''SecurePaste-Python-Client/1.0'')]\<rparr>] \<and>
   fst (get_paste replay local_client (PyStr ''abc'') (PyStr ''secret123'')
      (start [Responded (sample_response 200 ''OK'' sample_body
                (Inr sample_paste))])) =
     Inr sample_paste"
  using get_paste_request [of _ local_client "PyStr ''abc''" "PyStr ''secret123''" replay
      "start [Responded (sample_response 200 ''OK'' sample_body
                (Inr sample_paste))]", OF refl]
  by (simp add: sample_defs get_paste_def monad_defs raise_for_status_def response_json_def)

text \<open>
  Claim C5 as stated (the parameter is attached exactly when a password is supplied)
  fails at the empty password: it is supplied, it is not \<open>None\<close>, and the request has
  no parameter.
\<close>

theorem get_paste_password_counterexample:
  "PyStr [] \<noteq> PyNone \<and>
   params (last (issued (snd (get_paste replay local_client (PyStr ''abc'') (PyStr []) (start []))))) = []"
  by (simp add: sample_defs get_paste_def monad_defs)

text \<open>
  Claim C7. \<open>update_paste\<close> hands the session one request, \<open>PUT {api_base}/{paste_id}\<close>,
  whose JSON body is the dictionary of the keyword arguments, unchanged; a 2xx response
  whose body decodes makes it return the decoded value.
\<close>

theorem update_paste_request:
  "rq = \<lparr>verb = PUT, url = api_base c @ ''/'' @ py_str paste_id, params = [],
          json = Some (PyDict kwargs), headers = session_headers c\<rparr> \<Longrightarrow>
   issued (snd (update_paste send c paste_id kwargs s)) = issued s @ [rq] \<and>
   (\<forall>r v. fst (send rq (net s)) = Responded r \<and> 200 \<le> status_code r \<and> status_code r < 300 \<and>
      decoded r = Inr v \<longrightarrow> fst (update_paste send c paste_id kwargs s) = Inr v)"
proof -
  assume rq: "rq = \<lparr>verb = PUT, url = api_base c @ ''/'' @ py_str paste_id, params = [],
          json = Some (PyDict kwargs), headers = session_headers c\<rparr>"
  have iss: "issued (snd (update_paste send c paste_id kwargs s)) = issued s @ [rq]"
    by (simp add: update_paste_run rq Let_def after_request_def
        split: exchange.split option.split sum.split)
  have ok: "fst (update_paste send c paste_id kwargs s) = Inr v"
    if "fst (send rq (net s)) = Responded r" "200 \<le> status_code r" "status_code r < 300"
       "decoded r = Inr v" for r v
  proof -
    have "status_error r = None" using that by (simp add: status_error_None)
    then show ?thesis using that by (simp add: update_paste_run rq Let_def)
  qed
  show ?thesis
    using iss ok by blast
qed

text \<open>A run of \<open>update_paste\<close> that changes the title, answered by \<open>200 OK\<close>.\<close>

theorem update_paste_request_witness:
  "issued (snd (update_paste replay local_client (PyStr ''abc'') [(''title'', PyStr ''New'')]
      (start [Responded (sample_response 200 ''OK'' sample_body
                (Inr sample_paste))]))) =
     [\<lparr>verb = PUT, url = ''http://localhost:8080/api/pastes/abc'', params = [],
       json = Some (PyDict [(''title'', PyStr ''New'')]),
       headers = [(''Content-Type'', ''application/json''),
                  (''User-Agent'', ''SecurePaste-Python-Client/1.0'')]\<rparr>] \<and>
   fst (update_paste replay local_client (PyStr ''abc'') [(''title'', PyStr ''New'')]
      (start [Responded (sample_response 200 ''OK'' sample_body
                (Inr sample_paste))])) =
     Inr sample_paste"
  using update_paste_request [of _ local_client "PyStr ''abc''" "[(''title'', PyStr ''New'')]" replay
      "start [Responded (sample_response 200 ''OK'' sample_body
                (Inr sample_paste))]", OF refl]
  by (simp add: sample_defs update_paste_def monad_defs raise_for_status_def response_json_def)

text \<open>The dictionary display as a map: later bindings win.\<close>

lemma map_of_foldl_update:
  "map_of (foldl (\<lambda>d kv. AList.update (fst kv) (snd kv) d) d0 l) = map_of d0 ++ map_of (rev l)"
  by (induction l arbitrary: d0) (auto simp: update_conv' map_add_def fun_eq_iff split: option.splits)

lemma map_of_rev_distinct: "distinct (map fst xs) \<Longrightarrow> map_of (rev xs) = map_of xs"
proof (induction xs)
  case Nil
  show ?case by simp
next
  case (Cons p xs)
  then have none: "map_of xs (fst p) = None"
    by (simp add: map_of_eq_None_iff)
  have "map_of (rev (p # xs)) = [fst p \<mapsto> snd p] ++ map_of xs"
    using Cons by simp
  also have "\<dots> = (map_of xs)(fst p \<mapsto> snd p)"
    using none by (auto simp: map_add_def fun_eq_iff split: option.splits)
  finally show ?case by (cases p) simp
qed

lemma map_of_dict_display:
  "distinct (map fst kwargs) \<Longrightarrow> k1 \<noteq> k2 \<Longrightarrow>
   map_of (dict_display [(k1, v1), (k2, v2)] kwargs) = [k1 \<mapsto> v1, k2 \<mapsto> v2] ++ map_of kwargs"
  by (simp add: dict_display_def map_of_foldl_update map_of_rev_distinct)
    (auto simp: map_add_def fun_eq_iff split: option.splits)

lemma distinct_foldl_update:
  "distinct (map fst d0) \<Longrightarrow>
   distinct (map fst (foldl (\<lambda>d kv. AList.update (fst kv) (snd kv) d) d0 l))"
  by (induction l arbitrary: d0) (auto simp: distinct_update)

lemma distinct_dict_display: "distinct (map fst (dict_display items kwargs))"
  unfolding dict_display_def by (rule distinct_foldl_update) simp

text \<open>
  Claim C6. \<open>create_paste\<close> hands the session one request, \<open>POST {api_base}\<close>, whose
  JSON body is a dictionary with distinct keys that maps \<open>title\<close> and \<open>content\<close> to the
  two arguments, overlaid with the keyword arguments; a 2xx response whose body decodes
  makes it return the decoded value. A Python \<open>dict\<close> of keyword arguments has distinct
  keys.
\<close>

theorem create_paste_request:
  "rq = \<lparr>verb = POST, url = api_base c, params = [],
          json = Some (PyDict (dict_display [(''title'', title), (''content'', content)] kwargs)),
          headers = session_headers c\<rparr> \<Longrightarrow>
   distinct (map fst kwargs) \<Longrightarrow>
   issued (snd (create_paste send c title content kwargs s)) = issued s @ [rq] \<and>
   map_of (dict_display [(''title'', title), (''content'', content)] kwargs) =
     [''title'' \<mapsto> title, ''content'' \<mapsto> content] ++ map_of kwargs \<and>
   distinct (map fst (dict_display [(''title'', title), (''content'', content)] kwargs)) \<and>
   (\<forall>r v. fst (send rq (net s)) = Responded r \<and> 200 \<le> status_code r \<and> status_code r < 300 \<and>
      decoded r = Inr v \<longrightarrow> fst (create_paste send c title content kwargs s) = Inr v)"
proof -
  assume rq: "rq = \<lparr>verb = POST, url = api_base c, params = [],
          json = Some (PyDict (dict_display [(''title'', title), (''content'', content)] kwargs)),
          headers = session_headers c\<rparr>"
    and dist: "distinct (map fst kwargs)"
  have iss: "issued (snd (create_paste send c title content kwargs s)) = issued s @ [rq]"
    by (simp add: create_paste_run rq Let_def after_request_def
        split: exchange.split option.split sum.split)
  have merge: "map_of (dict_display [(''title'', title), (''content'', content)] kwargs) =
     [''title'' \<mapsto> title, ''content'' \<mapsto> content] ++ map_of kwargs"
    using dist by (rule map_of_dict_display) simp
  have ok: "fst (create_paste send c title content kwargs s) = Inr v"
    if "fst (send rq (net s)) = Responded r" "200 \<le> status_code r" "status_code r < 300"
       "decoded r = Inr v" for r v
  proof -
    have "status_error r = None" using that by (simp add: status_error_None)
    then show ?thesis using that by (simp add: create_paste_run rq Let_def)
  qed
  show ?thesis
    using iss merge distinct_dict_display ok by blast
qed

text \<open>A run of \<open>create_paste\<close> with one optional field, answered by \<open>201 Created\<close>.\<close>

theorem create_paste_request_witness:
  "issued (snd (create_paste replay local_client (PyStr ''T'') (PyStr ''C'')
      [(''visibility'', PyStr ''PUBLIC'')]
      (start [Responded (sample_response 201 ''Created'' sample_body
                (Inr sample_paste))]))) =
     [\<lparr>verb = POST, url = ''http://localhost:8080/api/pastes'', params = [],
       json = Some (PyDict [(''title'', PyStr ''T''), (''content'', PyStr ''C''),
                            (''visibility'', PyStr ''PUBLIC'')]),
       headers = [(''Content-Type'', ''application/json''),
                  (''User-Agent'', ''SecurePaste-Python-Client/1.0'')]\<rparr>] \<and>
   fst (create_paste replay local_client (PyStr ''T'') (PyStr ''C'')
      [(''visibility'', PyStr ''PUBLIC'')]
      (start [Responded (sample_response 201 ''Created'' sample_body
                (Inr sample_paste))])) =
     Inr sample_paste"
  using create_paste_request [of _ local_client "PyStr ''T''" "PyStr ''C''"
      "[(''visibility'', PyStr ''PUBLIC'')]" replay
      "start [Responded (sample_response 201 ''Created'' sample_body
                (Inr sample_paste))]", OF refl]
  by (simp add: sample_defs create_paste_def dict_display_def monad_defs raise_for_status_def
      response_json_def)

section \<open>The health check\<close>

text \<open>
  Claim C2, as the code has it. \<open>health_check\<close> hands the session one request,
  \<open>GET {api_base}/health\<close>. It returns \<open>True\<close> exactly when a response arrives whose
  status \<open>raise_for_status\<close> lets pass (below 400, or 600 and above) and whose body
  decodes to a JSON object with \<open>status\<close> equal to \<open>"UP"\<close>. A transport error, a status
  from 400 to 599 or a body that does not decode makes it return \<open>False\<close>.
\<close>

theorem health_check_result:
  "rq = \<lparr>verb = GET, url = api_base c @ ''/health'', params = [], json = None,
          headers = session_headers c\<rparr> \<Longrightarrow>
   issued (snd (health_check send c s)) = issued s @ [rq] \<and>
   (fst (health_check send c s) = Inr True) =
     (\<exists>r kvs. fst (send rq (net s)) = Responded r \<and>
        (status_code r < 400 \<or> 600 \<le> status_code r) \<and>
        decoded r = Inr (PyDict kvs) \<and> map_of kvs ''status'' = Some (PyStr ''UP'')) \<and>
   (\<forall>e. fst (send rq (net s)) = Raised e \<longrightarrow> fst (health_check send c s) = Inr False) \<and>
   (\<forall>r. fst (send rq (net s)) = Responded r \<and>
      (400 \<le> status_code r \<and> status_code r < 600 \<or> isl (decoded r)) \<longrightarrow>
      fst (health_check send c s) = Inr False)"
proof -
  assume rq: "rq = \<lparr>verb = GET, url = api_base c @ ''/health'', params = [], json = None,
          headers = session_headers c\<rparr>"
  have iss: "issued (snd (health_check send c s)) = issued s @ [rq]"
    by (simp add: health_check_run rq Let_def after_request_def
        split: exchange.split option.split sum.split)
  have up: "(dict_get body ''status'' PyNone = Inr (PyStr ''UP'')) =
      (\<exists>kvs. body = PyDict kvs \<and> map_of kvs ''status'' = Some (PyStr ''UP''))" for body
    by (cases body) (auto split: option.splits)
  have true: "(fst (health_check send c s) = Inr True) =
     (\<exists>r kvs. fst (send rq (net s)) = Responded r \<and>
        (status_code r < 400 \<or> 600 \<le> status_code r) \<and>
        decoded r = Inr (PyDict kvs) \<and> map_of kvs ''status'' = Some (PyStr ''UP''))"
  proof (cases "fst (send rq (net s))")
    case (Raised e)
    then show ?thesis by (simp add: health_check_run rq Let_def)
  next
    case (Responded r)
    show ?thesis
    proof (cases "status_error r")
      case (Some e)
      then have "\<not> (status_code r < 400 \<or> 600 \<le> status_code r)"
        using status_error_None [of r] by simp
      then show ?thesis using Responded Some
        by (simp add: health_check_run rq Let_def)
    next
      case None
      then have pass: "status_code r < 400 \<or> 600 \<le> status_code r"
        by (simp add: status_error_None)
      show ?thesis
      proof (cases "decoded r")
        case (Inl msg)
        then show ?thesis using Responded None
          by (simp add: health_check_run rq Let_def)
      next
        case (Inr body)
        have "(fst (health_check send c s) = Inr True) =
            (dict_get body ''status'' PyNone = Inr (PyStr ''UP''))"
          using Responded None Inr
          by (simp add: health_check_run rq Let_def split: sum.split) 
        then show ?thesis using Responded Inr pass by (simp add: up)
      qed
    qed
  qed
  have raised: "fst (health_check send c s) = Inr False"
    if "fst (send rq (net s)) = Raised e" for e
    using that by (simp add: health_check_run rq Let_def)
  have bad: "fst (health_check send c s) = Inr False"
    if "fst (send rq (net s)) = Responded r"
       "400 \<le> status_code r \<and> status_code r < 600 \<or> isl (decoded r)" for r
  proof (cases "status_error r")
    case None
    then have "isl (decoded r)" using that by (auto simp: status_error_None)
    then show ?thesis using that None
      by (cases "decoded r") (simp_all add: health_check_run rq Let_def)
  next
    case (Some e)
    then show ?thesis using that by (simp add: health_check_run rq Let_def)
  qed
  show ?thesis
    using iss true raised bad by blast
qed

text \<open>Three runs: a healthy service, a refused connection, a 503.\<close>

theorem health_check_result_witness:
  "issued (snd (health_check replay local_client
      (start [Responded (sample_response 200 ''OK'' health_body (Inr health_up))]))) =
     [\<lparr>verb = GET, url = ''http://localhost:8080/api/pastes/health'', params = [], json = None,
       headers = [(''Content-Type'', ''application/json''),
                  (''User-Agent'', ''SecurePaste-Python-Client/1.0'')]\<rparr>] \<and>
   fst (health_check replay local_client
      (start [Responded (sample_response 200 ''OK'' health_body (Inr health_up))])) = Inr True \<and>
   fst (health_check replay local_client (start [])) = Inr False \<and>
   fst (health_check replay local_client
      (start [Responded (sample_response 503 ''Service Unavailable'' [] (Inl ''Expecting value''))])) =
     Inr False"
  using health_check_result [of _ local_client replay
      "start [Responded (sample_response 200 ''OK'' health_body (Inr health_up))]", OF refl]
    health_check_result [of _ local_client replay "start []", OF refl]
    health_check_result [of _ local_client replay
      "start [Responded (sample_response 503 ''Service Unavailable'' [] (Inl ''Expecting value''))]",
      OF refl]
  by (simp add: sample_defs health_check_def monad_defs raise_for_status_def response_json_def)

text \<open>
  Claim C2 as stated (\<open>True\<close> exactly when the status is 2xx and the field is \<open>"UP"\<close>)
  fails: a final response with status 300 and the body \<open>{"status": "UP"}\<close> makes
  \<open>health_check\<close> return \<open>True\<close>.
\<close>

theorem health_check_2xx_counterexample:
  "fst (health_check replay local_client
      (start [Responded (sample_response 300 ''Multiple Choices'' health_body (Inr health_up))])) =
     Inr True \<and>
   \<not> (200 \<le> status_code (sample_response 300 ''Multiple Choices'' health_body (Inr health_up)) \<and>
      status_code (sample_response 300 ''Multiple Choices'' health_body (Inr health_up)) < 300)"
  by (simp add: sample_defs health_check_def monad_defs raise_for_status_def response_json_def)

text \<open>
  A body that decodes to something other than a JSON object has no \<open>get\<close>: the
  \<open>AttributeError\<close> is not a \<open>RequestException\<close> and leaves \<open>health_check\<close>.
\<close>

lemma health_check_raises:
  "fst (health_check replay local_client
      (start [Responded (sample_response 200 ''OK'' ''[]'' (Inr (PyList [])))])) = Inl AttributeError"
  by (simp add: sample_defs health_check_def monad_defs raise_for_status_def response_json_def)

section \<open>Failures become values\<close>

lemma refused_status_error:
  "refused (Responded r) = (status_error r \<noteq> None)"
  using status_error_None [of r] by (auto simp: refused_def)




lemma delete_paste_props:
  shows delete_paste_issued: "issued (snd (delete_paste send c paste_id s)) = issued s @
      [\<lparr>verb = DELETE, url = api_base c @ ''/'' @ py_str paste_id, params = [], json = None,
        headers = session_headers c\<rparr>]"
    and delete_paste_net: "net (snd (delete_paste send c paste_id s)) =
      snd (send \<lparr>verb = DELETE, url = api_base c @ ''/'' @ py_str paste_id, params = [],
                  json = None, headers = session_headers c\<rparr> (net s))"
    and delete_paste_exchange:
      "exchange_of send s (delete_paste send c paste_id s) =
         fst (send \<lparr>verb = DELETE, url = api_base c @ ''/'' @ py_str paste_id, params = [],
                     json = None, headers = session_headers c\<rparr> (net s))"
    and delete_paste_result: "fst (delete_paste send c paste_id s) =
      Inr (\<not> refused (exchange_of send s (delete_paste send c paste_id s)))"
    and delete_paste_report: "stdout (snd (delete_paste send c paste_id s)) = stdout s @
      (if refused (exchange_of send s (delete_paste send c paste_id s))
       then [''Error deleting paste '' @ py_str paste_id @ '': '' @
             exc_message (caught (exchange_of send s (delete_paste send c paste_id s)))]
       else [])"
proof -
  show i: "issued (snd (delete_paste send c paste_id s)) = issued s @
      [\<lparr>verb = DELETE, url = api_base c @ ''/'' @ py_str paste_id, params = [], json = None,
        headers = session_headers c\<rparr>]"
    by (simp add: delete_paste_run Let_def after_request_def split: exchange.split option.split)
  show "net (snd (delete_paste send c paste_id s)) =
      snd (send \<lparr>verb = DELETE, url = api_base c @ ''/'' @ py_str paste_id, params = [],
                  json = None, headers = session_headers c\<rparr> (net s))"
    by (simp add: delete_paste_run Let_def after_request_def split: exchange.split option.split)
  show x: "exchange_of send s (delete_paste send c paste_id s) =
         fst (send \<lparr>verb = DELETE, url = api_base c @ ''/'' @ py_str paste_id, params = [],
                     json = None, headers = session_headers c\<rparr> (net s))"
    by (simp add: exchange_of_def i)
  show "fst (delete_paste send c paste_id s) =
      Inr (\<not> refused (exchange_of send s (delete_paste send c paste_id s)))"
    unfolding x
    by (simp add: delete_paste_run Let_def refused_status_error split: exchange.split option.split)
      (simp add: refused_def)
  show "stdout (snd (delete_paste send c paste_id s)) = stdout s @
      (if refused (exchange_of send s (delete_paste send c paste_id s))
       then [''Error deleting paste '' @ py_str paste_id @ '': '' @
             exc_message (caught (exchange_of send s (delete_paste send c paste_id s)))]
       else [])"
    unfolding x
    by (simp add: delete_paste_run Let_def after_request_def refused_status_error caught_def
        split: exchange.split option.split)
      (simp add: refused_def)
qed






section \<open>What a failing operation prints\<close>





text \<open>
  The same for an operation that has the \<open>Response:\<close> line: the exception that
  \<open>raise_for_status\<close> raises carries a response of status 400 to 599, which tests false,
  so \<open>create_paste\<close> answered by a 400 prints the error line only.
\<close>

lemma create_paste_http_error_output:
  "stdout (snd (create_paste replay local_client (PyStr ''T'') (PyStr ''C'') []
      (start [Responded ((sample_response 400 ''Bad Request'' ''title is too long'' (Inl ''Expecting value''))
                \<lparr>resp_url := ''http://localhost:8080/api/pastes''\<rparr>)]))) =
     [''Error creating paste: 400 Client Error: Bad Request for url: http://localhost:8080/api/pastes'']"
  by (simp add: sample_defs create_paste_def dict_display_def monad_defs raise_for_status_def
      has_response_def response_ok_def str_int_def str_nat.simps digit_char_def)

section \<open>Keyword arguments of \<open>create_paste\<close>\<close>





section \<open>The driver on a script\<close>















lemma has_keys_Cons: "has_keys kvs (k # ks) = ((\<exists>v. map_of kvs k = Some v) \<and> has_keys kvs ks)"
  by (simp add: has_keys_def)

lemma paste_recordE:
  assumes "paste_record v"
  obtains kvs i t vis vc cr ct where "v = PyDict kvs"
    "map_of kvs ''id'' = Some i" "map_of kvs ''title'' = Some t"
    "map_of kvs ''visibility'' = Some vis" "map_of kvs ''viewCount'' = Some vc"
    "map_of kvs ''createdAt'' = Some cr" "map_of kvs ''content'' = Some (PyStr ct)"
  using assms
  by (cases v) (auto simp: has_keys_Cons split: option.splits pyval.splits)

lemma paste_record_truthy: "paste_record v \<Longrightarrow> truthy v"
  by (erule paste_recordE) auto






















































end
